theory Spec2Isabelle
  imports Complex_Main "HOL-Library.Log_Nat" "HOL-Library.Signed_Division"
begin

section \<open>Values of the host language\<close>

text \<open>
  The repository holds two versions of one React hook. The first hook
  (\<^verbatim>\<open>useTransactions-fixed.tsx\<close>) signs a transaction with the embedded wallet, posts it
  to the JSON-RPC endpoint and waits for its receipt; the second one (the code listed after
  the README text) computes a gas configuration with \<^verbatim>\<open>getOptimizedGasConfig\<close>.
  Both are modelled as functions of the answers of the outside world (node, wallet, clock),
  which return their result together with the ordered list of the external calls and
  notifications they made.
\<close>

type_synonym hex = string

text \<open>
  A thrown value, the reason of a rejected promise included. JavaScript throws any value,
  and the \<^verbatim>\<open>catch\<close> block of \<^verbatim>\<open>sendRawTransactionAndConfirm\<close> reads the value's
  \<^verbatim>\<open>message\<close> and tests its truthiness, so the model tells apart: an object whose
  \<^verbatim>\<open>message\<close> property is the given text (an \<^verbatim>\<open>Error\<close> of any class); \<^verbatim>\<open>undefined\<close>;
  \<^verbatim>\<open>null\<close>; any other falsy value (\<^verbatim>\<open>0\<close>, \<^verbatim>\<open>NaN\<close>, the empty string,
  \<^verbatim>\<open>false\<close>); and any other truthy value, which has no \<^verbatim>\<open>message\<close>.
\<close>

datatype thrown =
    Error (message: string)
  | ThrownUndefined
  | ThrownNull
  | ThrownFalsy
  | ThrownOther

fun is_truthy :: "thrown \<Rightarrow> bool" where
  "is_truthy (Error m) = True"
| "is_truthy ThrownOther = True"
| "is_truthy t = False"

text \<open>
  Truthiness of an optional \<^verbatim>\<open>bigint\<close>: \<^verbatim>\<open>undefined\<close>, \<^verbatim>\<open>null\<close> and \<^verbatim>\<open>0n\<close>
  are falsy.
\<close>

definition truthy :: "int option \<Rightarrow> bool" where
  "truthy v = (case v of None \<Rightarrow> False | Some n \<Rightarrow> n \<noteq> 0)"

text \<open>\<^verbatim>\<open>v || d\<close> on an optional \<^verbatim>\<open>bigint\<close>.\<close>

definition or_else :: "int option \<Rightarrow> int \<Rightarrow> int" where
  "or_else v d = (case v of None \<Rightarrow> d | Some n \<Rightarrow> if n \<noteq> 0 then n else d)"

text \<open>
  \<^verbatim>\<open>n + 1\<close> on a JavaScript \<^verbatim>\<open>number\<close> that holds an integer. A \<^verbatim>\<open>number\<close> is a
  double: the sum is exact up to \<open>2^53\<close>; beyond, odd integers are not representable and
  the sum is rounded to the nearest double, ties to the even significand.
\<close>

definition number_add_one :: "int \<Rightarrow> int" where
  "number_add_one n =
     (if - (2 ^ 53) \<le> n \<and> n < 2 ^ 53 then n + 1
      else if - (2 ^ 54) \<le> n \<and> n < 2 ^ 54 then (if n mod 4 = 0 then n else n + 2)
      else n)"

text \<open>
  The decimal digits of an integer. This is not the hooks' way of printing a number (they
  print through the world's \<open>numberToString\<close>, below, whatever the engine makes of it);
  it is the printer of the concrete scenarios, whose numbers are small integers, which an
  engine prints as their digits.
\<close>

fun decimal_nat :: "nat \<Rightarrow> string" where
  "decimal_nat n =
     (if n < 10 then [char_of (48 + n)]
      else decimal_nat (n div 10) @ [char_of (48 + n mod 10)])"

declare decimal_nat.simps [simp del]

definition decimal_int :: "int \<Rightarrow> string" where
  "decimal_int i = (if i < 0 then CHR ''-'' # decimal_nat (nat (- i)) else decimal_nat (nat i))"

text \<open>\<^verbatim>\<open>${successText}\<close> for an optional string.\<close>

definition show_optional :: "string option \<Rightarrow> string" where
  "show_optional s = (case s of None \<Rightarrow> ''undefined'' | Some t \<Rightarrow> t)"

subsection \<open>Unit conversion (viem)\<close>

text \<open>
  \<^verbatim>\<open>parseUnits(value, decimals)\<close> of viem on the literals this program passes: unsigned
  decimal text with at most \<open>decimals\<close> digits after the point. The fraction is padded
  with zeros to \<open>decimals\<close> digits and the digits are read as one integer.
\<close>

definition digit_value :: "char \<Rightarrow> nat" where
  "digit_value c = of_char c - 48"

definition parseUnits :: "string \<Rightarrow> nat \<Rightarrow> int" where
  "parseUnits v decimals =
     (let integer = takeWhile (\<lambda>c. c \<noteq> CHR ''.'') v;
          fraction = drop 1 (dropWhile (\<lambda>c. c \<noteq> CHR ''.'') v);
          padded = take decimals (fraction @ replicate decimals CHR ''0'')
      in int (foldl (\<lambda>a c. 10 * a + digit_value c) 0 (integer @ padded)))"

definition parseGwei :: "string \<Rightarrow> int" where
  "parseGwei v = parseUnits v 9"

definition parseEther :: "string \<Rightarrow> int" where
  "parseEther v = parseUnits v 18"

subsection \<open>Doubles\<close>

text \<open>
  The balance check of the first hook is \<^verbatim>\<open>parseFloat(formatEther(balance)) < 0.01\<close>:
  a comparison of doubles. A finite double is represented by its rational value. In units
  of \<open>2^-1074\<close> (the smallest subnormal) every finite double is an integer with at most 53
  significant bits, so a non-negative rational \<open>y\<close> of such units is rounded by dropping
  the bits of its integer part beyond the first 53, to nearest and ties to even.
\<close>

definition round_half_even :: "rat \<Rightarrow> int" where
  "round_half_even q =
     (let f = \<lfloor>q\<rfloor>; d = q - of_int f
      in if d < 1 / 2 then f else if 1 / 2 < d then f + 1 else if even f then f else f + 1)"

definition double_units :: "rat \<Rightarrow> int" where
  "double_units y =
     (let s = nat (bitlen \<lfloor>y\<rfloor> - 53) in round_half_even (y / 2 ^ s) * 2 ^ s)"

definition double_magnitude :: "rat \<Rightarrow> rat" where
  "double_magnitude x = of_int (double_units (x * 2 ^ 1074)) / 2 ^ 1074"

datatype js_number = Num rat | PosInfinity | NegInfinity

text \<open>The Number value of a mathematical value (no NaN arises from decimal text).\<close>

definition to_Number :: "rat \<Rightarrow> js_number" where
  "to_Number x =
     (let m = double_magnitude \<bar>x\<bar>
      in if 2 ^ 1024 \<le> m then (if 0 < x then PosInfinity else NegInfinity)
         else Num (sgn x * m))"

fun js_less :: "js_number \<Rightarrow> js_number \<Rightarrow> bool" where
  "js_less (Num a) (Num b) = (a < b)"
| "js_less NegInfinity b = (b \<noteq> NegInfinity)"
| "js_less a PosInfinity = (a \<noteq> PosInfinity)"
| "js_less a b = False"

text \<open>
  \<^verbatim>\<open>formatEther(wei)\<close> prints \<open>wei / 10^18\<close> exactly, as decimal text; the model keeps
  the number that text denotes. \<^verbatim>\<open>parseFloat\<close> reads such text as the nearest double.
\<close>

definition formatEther :: "int \<Rightarrow> rat" where
  "formatEther wei = of_int wei / 10 ^ 18"

definition parseFloat :: "rat \<Rightarrow> js_number" where
  "parseFloat v = to_Number v"

section \<open>The first hook: sign, submit, confirm\<close>

subsection \<open>Data\<close>

text \<open>
  The call data of the two contract functions. The bytes \<^verbatim>\<open>encodeFunctionData\<close> returns
  are kept symbolic: they are identified with the function and its arguments.
\<close>

datatype calldata =
    StartGame hex "int list" "int list"
  | Play hex int int

record block =
  baseFeePerGas :: "int option"

record gas_params =
  maxFeePerGas :: int
  maxPriorityFeePerGas :: int

record estimate_request =
  est_account :: hex
  est_to :: hex
  est_data :: calldata

record transaction_request =
  tx_to :: hex
  tx_account :: hex
  tx_data :: calldata
  tx_nonce :: int
  tx_gas :: int
  tx_maxFeePerGas :: int
  tx_maxPriorityFeePerGas :: int

record rpc_request =
  rq_url :: string
  rq_method :: string
  rq_params :: "hex list"
  rq_retries :: nat
  rq_retryDelay :: nat

record rpc_error =
  err_message :: string

record rpc_response =
  rsp_error :: "rpc_error option"
  rsp_result :: hex

datatype receipt_status = Success | Reverted

record receipt =
  status :: receipt_status

text \<open>The wallet client held in \<^verbatim>\<open>walletClient.current\<close>.\<close>

record wallet_client =
  signTransaction :: "transaction_request \<Rightarrow> thrown + hex"

text \<open>The three refs of the hook and the wallet ref: the cached account state.\<close>

record refs =
  userNonce :: int
  userBalance :: int
  userAddress :: string
  walletClient :: "wallet_client option"

text \<open>
  What the outside world answers: the public client of the node, the \<^verbatim>\<open>post\<close> helper,
  the page's host name, the contract address constant and the readings of the clock
  (\<^verbatim>\<open>Date.now()\<close> at the start, after the submission and at the confirmation).
  A call that throws answers \<open>Inl\<close>. Three library and engine functions are taken as they
  come, without their algorithms: whether viem's \<^verbatim>\<open>encodeFunctionData\<close> throws on a call
  whose arguments do not fit the ABI types (and what), the text a template literal prints
  for a number, and the message of the \<^verbatim>\<open>TypeError\<close> the engine raises when a property
  of \<^verbatim>\<open>undefined\<close> or \<^verbatim>\<open>null\<close> is read.
\<close>

record world =
  GAME_CONTRACT_ADDRESS :: hex
  hostname :: string
  abiEncodingError :: "calldata \<Rightarrow> thrown option"
  numberToString :: "int \<Rightarrow> string"
  typeErrorMessage :: "thrown \<Rightarrow> string"
  publicClient_getBlock :: "thrown + block"
  publicClient_estimateGas :: "estimate_request \<Rightarrow> thrown + int"
  post :: "rpc_request \<Rightarrow> thrown + rpc_response"
  waitForTransactionReceipt :: "hex \<Rightarrow> thrown + receipt"
  now_start :: int
  now_sent :: int
  now_confirmed :: int

text \<open>
  External calls and notifications, in the order they happen. A toast carries its title,
  its description and, for the two transaction toasts, the explorer link of its button.
\<close>

datatype event =
    CallGetBlock
  | CallEstimateGas estimate_request
  | CallSignTransaction transaction_request
  | CallPost rpc_request
  | CallWaitForReceipt hex
  | ToastInfo string string string
  | ToastSuccess string string string
  | ToastError string string

subsection \<open>Gas price and gas limit\<close>

definition getCurrentGasPrices :: "world \<Rightarrow> gas_params \<times> event list" where
  "getCurrentGasPrices w =
     (case publicClient_getBlock w of
        Inr latestBlock \<Rightarrow>
          (let base = or_else (baseFeePerGas latestBlock) (parseGwei ''1'');
               maxFee = base * 2;
               maxPriorityFee = parseGwei ''1''
           in (\<lparr>maxFeePerGas = maxFee, maxPriorityFeePerGas = maxPriorityFee\<rparr>,
               [CallGetBlock]))
      | Inl e \<Rightarrow>
          (\<lparr>maxFeePerGas = parseGwei ''2.0'', maxPriorityFeePerGas = parseGwei ''1.0''\<rparr>,
           [CallGetBlock]))"

definition estimateGas :: "world \<Rightarrow> refs \<Rightarrow> calldata \<Rightarrow> int \<times> event list" where
  "estimateGas w r d =
     (let privyUserAddress = userAddress r
      in if privyUserAddress = [] then (100000, [])
         else
           (let req = \<lparr>est_account = privyUserAddress, est_to = GAME_CONTRACT_ADDRESS w,
                       est_data = d\<rparr>
            in case publicClient_estimateGas w req of
                 Inr estimatedGas \<Rightarrow> ((estimatedGas * 120) sdiv 100, [CallEstimateGas req])
               | Inl e \<Rightarrow> (100000, [CallEstimateGas req])))"

subsection \<open>Sending a transaction\<close>

text \<open>The fee pair and the gas limit the transaction is signed with.\<close>

definition gasParams :: "world \<Rightarrow> int option \<Rightarrow> int option \<Rightarrow> gas_params \<times> event list" where
  "gasParams w maxFee maxPriorityFee =
     (if truthy maxFee \<and> truthy maxPriorityFee
      then (\<lparr>maxFeePerGas = the maxFee, maxPriorityFeePerGas = the maxPriorityFee\<rparr>, [])
      else getCurrentGasPrices w)"

definition gasLimit :: "world \<Rightarrow> refs \<Rightarrow> calldata \<Rightarrow> int option \<Rightarrow> int \<times> event list" where
  "gasLimit w r d g = (if truthy g then (the g, []) else estimateGas w r d)"

definition signRequest ::
  "world \<Rightarrow> refs \<Rightarrow> calldata \<Rightarrow> int \<Rightarrow> int option \<Rightarrow> int option \<Rightarrow> int option
     \<Rightarrow> transaction_request" where
  "signRequest w r d n g maxFee maxPriorityFee =
     \<lparr>tx_to = GAME_CONTRACT_ADDRESS w,
      tx_account = userAddress r,
      tx_data = d,
      tx_nonce = n,
      tx_gas = fst (gasLimit w r d g),
      tx_maxFeePerGas = maxFeePerGas (fst (gasParams w maxFee maxPriorityFee)),
      tx_maxPriorityFeePerGas = maxPriorityFeePerGas (fst (gasParams w maxFee maxPriorityFee))\<rparr>"

text \<open>The calls made while the fee pair and the gas limit are resolved, in that order.\<close>

definition setupEvents ::
  "world \<Rightarrow> refs \<Rightarrow> calldata \<Rightarrow> int option \<Rightarrow> int option \<Rightarrow> int option \<Rightarrow> event list" where
  "setupEvents w r d g maxFee maxPriorityFee =
     snd (gasParams w maxFee maxPriorityFee) @ snd (gasLimit w r d g)"

definition rpcUrl :: "world \<Rightarrow> string" where
  "rpcUrl w = (if hostname w = ''localhost'' then ''/megaeth-rpc''
               else ''https://carrot.megaeth.com/rpc'')"

definition sendRequest :: "world \<Rightarrow> hex \<Rightarrow> rpc_request" where
  "sendRequest w signedTransaction =
     \<lparr>rq_url = rpcUrl w, rq_method = ''eth_sendRawTransaction'',
      rq_params = [signedTransaction], rq_retries = 3, rq_retryDelay = 2000\<rparr>"

definition explorerLink :: "hex \<Rightarrow> string" where
  "explorerLink transactionHash = ''https://megaexplorer.xyz/tx/'' @ transactionHash"

definition timed :: "world \<Rightarrow> string option \<Rightarrow> int \<Rightarrow> string" where
  "timed w successText t =
     show_optional successText @ '' Time: '' @ numberToString w t @ '' ms''"

text \<open>
  The body of the \<^verbatim>\<open>try\<close> block of \<^verbatim>\<open>sendRawTransactionAndConfirm\<close>: the result is
  \<open>Inl\<close> of the thrown value or \<open>Inr ()\<close>, with the events up to that point.
\<close>

definition sendAttempt ::
  "world \<Rightarrow> refs \<Rightarrow> string option \<Rightarrow> calldata \<Rightarrow> int \<Rightarrow> int option \<Rightarrow> int option
     \<Rightarrow> int option \<Rightarrow> (thrown + unit) \<times> event list" where
  "sendAttempt w r successText d n g maxFee maxPriorityFee =
     (case walletClient r of
        None \<Rightarrow> (Inl (Error ''Wallet not found.''), [])
      | Some provider \<Rightarrow>
          if userAddress r = [] then (Inl (Error ''Privy user not found.''), [])
          else
            (let tx = signRequest w r d n g maxFee maxPriorityFee;
                 ev1 = setupEvents w r d g maxFee maxPriorityFee @ [CallSignTransaction tx]
             in case signTransaction provider tx of
                  Inl e \<Rightarrow> (Inl e, ev1)
                | Inr signedTransaction \<Rightarrow>
                    (let req = sendRequest w signedTransaction;
                         ev2 = ev1 @ [CallPost req]
                     in case post w req of
                          Inl e \<Rightarrow> (Inl e, ev2)
                        | Inr response \<Rightarrow>
                            (case rsp_error response of
                               Some err \<Rightarrow> (Inl (Error (err_message err)), ev2)
                             | None \<Rightarrow>
                                 (let transactionHash = rsp_result response;
                                      ev3 = ev2 @
                                        [ToastInfo ''Sent transaction.''
                                           (timed w successText (now_sent w - now_start w))
                                           (explorerLink transactionHash),
                                         CallWaitForReceipt transactionHash]
                                  in case waitForTransactionReceipt w transactionHash of
                                       Inl e \<Rightarrow> (Inl e, ev3)
                                     | Inr rc \<Rightarrow>
                                         if status rc = Reverted
                                         then (Inl (Error (''Failed to confirm transaction: ''
                                                             @ transactionHash)), ev3)
                                         else (Inr (), ev3 @
                                           [ToastSuccess ''Confirmed transaction.''
                                              (timed w successText (now_confirmed w - now_start w))
                                              (explorerLink transactionHash)]))))))"

text \<open>
  The description of the failure toast, \<^verbatim>\<open>`Error: ${e.message}`\<close>, for a caught value
  other than \<^verbatim>\<open>undefined\<close> and \<^verbatim>\<open>null\<close>: a value without a \<^verbatim>\<open>message\<close> prints
  \<^verbatim>\<open>undefined\<close>.
\<close>

definition failureDescription :: "thrown \<Rightarrow> string" where
  "failureDescription t = (case t of Error m \<Rightarrow> ''Error: '' @ m | _ \<Rightarrow> ''Error: undefined'')"

text \<open>
  The \<^verbatim>\<open>catch\<close> block stores the caught value in \<^verbatim>\<open>e\<close> and shows the failure toast;
  after it, \<^verbatim>\<open>if (e) throw e\<close> throws the value again when it is truthy. Reading
  \<^verbatim>\<open>e.message\<close> of \<^verbatim>\<open>undefined\<close> or \<^verbatim>\<open>null\<close> raises a \<^verbatim>\<open>TypeError\<close> inside the
  \<^verbatim>\<open>catch\<close> block, before the toast is shown; a falsy value of another kind gets its
  toast and is then not thrown again.
\<close>

definition sendRawTransactionAndConfirm ::
  "world \<Rightarrow> refs \<Rightarrow> string option \<Rightarrow> calldata \<Rightarrow> int \<Rightarrow> int option \<Rightarrow> int option
     \<Rightarrow> int option \<Rightarrow> (thrown + unit) \<times> event list" where
  "sendRawTransactionAndConfirm w r successText d n g maxFee maxPriorityFee =
     (case sendAttempt w r successText d n g maxFee maxPriorityFee of
        (Inr u, evs) \<Rightarrow> (Inr u, evs)
      | (Inl e, evs) \<Rightarrow>
          (case e of
             ThrownUndefined \<Rightarrow> (Inl (Error (typeErrorMessage w e)), evs)
           | ThrownNull \<Rightarrow> (Inl (Error (typeErrorMessage w e)), evs)
           | _ \<Rightarrow>
               (if is_truthy e then Inl e else Inr (),
                evs @ [ToastError ''Failed to send transaction.'' (failureDescription e)])))"

text \<open>
  Whether no step of the flow fails: the wallet and the address are there, the wallet
  signs, the request gets a response without an error payload, and the receipt arrives
  with a status other than reverted.
\<close>

definition allStepsSucceed ::
  "world \<Rightarrow> refs \<Rightarrow> calldata \<Rightarrow> int \<Rightarrow> int option \<Rightarrow> int option \<Rightarrow> int option \<Rightarrow> bool" where
  "allStepsSucceed w r d n g maxFee maxPriorityFee =
     (case walletClient r of
        None \<Rightarrow> False
      | Some provider \<Rightarrow>
          userAddress r \<noteq> [] \<and>
          (case signTransaction provider (signRequest w r d n g maxFee maxPriorityFee) of
             Inl e \<Rightarrow> False
           | Inr signedTransaction \<Rightarrow>
               (case post w (sendRequest w signedTransaction) of
                  Inl e \<Rightarrow> False
                | Inr response \<Rightarrow>
                    rsp_error response = None \<and>
                    (case waitForTransactionReceipt w (rsp_result response) of
                       Inl e \<Rightarrow> False
                     | Inr rc \<Rightarrow> status rc \<noteq> Reverted))))"

subsection \<open>The two game operations\<close>

text \<open>
  \<^verbatim>\<open>encodeFunctionData\<close> of viem: it throws when the arguments do not fit the types of
  the ABI (a game id that is not 32 bytes, a board or move out of range), and returns the
  call data otherwise. Both operations call it after the balance check and outside any
  \<^verbatim>\<open>try\<close>.
\<close>

definition encodeFunctionData :: "world \<Rightarrow> calldata \<Rightarrow> thrown + calldata" where
  "encodeFunctionData w c = (case abiEncodingError w c of Some t \<Rightarrow> Inl t | None \<Rightarrow> Inr c)"

definition initializeGameTransaction ::
  "world \<Rightarrow> refs \<Rightarrow> hex \<Rightarrow> int list \<Rightarrow> int list \<Rightarrow> (thrown + unit) \<times> refs \<times> event list" where
  "initializeGameTransaction w r gameId boards moves =
     (let balance = userBalance r
      in if js_less (parseFloat (formatEther balance)) (to_Number (1 / 100))
         then (Inl (Error ''Signer has insufficient balance.''), r, [])
         else
           (case encodeFunctionData w (StartGame gameId boards moves) of
              Inl e \<Rightarrow> (Inl e, r, [])
            | Inr d \<Rightarrow>
                (let n = userNonce r;
                     r' = r\<lparr>userNonce := number_add_one n,
                            userBalance := balance - parseEther ''0.0075''\<rparr>;
                     res = sendRawTransactionAndConfirm w r' (Some ''Started game!'') d n
                             None None None
                 in (fst res, r', snd res))))"

definition playNewMoveTransaction ::
  "world \<Rightarrow> refs \<Rightarrow> hex \<Rightarrow> int \<Rightarrow> int \<Rightarrow> int \<Rightarrow> (thrown + unit) \<times> refs \<times> event list" where
  "playNewMoveTransaction w r gameId board move moveCount =
     (let balance = userBalance r
      in if js_less (parseFloat (formatEther balance)) (to_Number (1 / 100))
         then (Inl (Error ''Signer has insufficient balance.''), r, [])
         else
           (case encodeFunctionData w (Play gameId move board) of
              Inl e \<Rightarrow> (Inl e, r, [])
            | Inr d \<Rightarrow>
                (let n = userNonce r;
                     r' = r\<lparr>userNonce := number_add_one n,
                            userBalance := balance - parseEther ''0.005''\<rparr>;
                     res = sendRawTransactionAndConfirm w r'
                             (Some (''Played move '' @ numberToString w moveCount)) d n
                             None None None
                 in (fst res, r', snd res))))"

section \<open>The second hook: the optimized gas configuration\<close>

text \<open>
  The public client of the second hook may be undefined (\<^verbatim>\<open>publicClient?.\<close>): a call
  through an undefined client yields \<^verbatim>\<open>undefined\<close>, modelled by \<open>None\<close>.
\<close>

record gas_query =
  contractAddress :: hex
  functionName :: string
  args :: "int list"
  account :: hex
  callValue :: "int option"

record public_client =
  getBlock_baseFeePerGas :: "thrown + int option"
  getGasPrice :: "thrown + int"
  client_estimateGas :: "gas_query \<Rightarrow> thrown + int"

record gas_config = gas_params +
  gas :: int

text \<open>The first inner \<^verbatim>\<open>try\<close>: base fee and gas price, with their fallbacks.\<close>

definition networkGasInfo :: "public_client option \<Rightarrow> int \<times> int" where
  "networkGasInfo pc =
     (case pc of
        None \<Rightarrow> (parseEther ''0.001'', parseEther ''0.002'')
      | Some c \<Rightarrow>
          (case getBlock_baseFeePerGas c of
             Inl e \<Rightarrow> (parseEther ''0.001'', parseEther ''0.002'')
           | Inr fee \<Rightarrow>
               (case getGasPrice c of
                  Inl e \<Rightarrow> (parseEther ''0.001'', parseEther ''0.002'')
                | Inr price \<Rightarrow>
                    (or_else fee (parseEther ''0.001''),
                     or_else (Some price) (parseEther ''0.002'')))))"

text \<open>
  The second inner \<^verbatim>\<open>try\<close>: the gas limit. Through an undefined client the estimate is
  \<^verbatim>\<open>undefined\<close> and its product with \<^verbatim>\<open>125n\<close> throws, which the same \<^verbatim>\<open>catch\<close>
  turns into the fallback.
\<close>

definition estimatedGasLimit :: "public_client option \<Rightarrow> gas_query \<Rightarrow> int" where
  "estimatedGasLimit pc q =
     (case pc of
        None \<Rightarrow> (if functionName q = ''startGame'' then 150000 else 100000)
      | Some c \<Rightarrow>
          (case client_estimateGas c q of
             Inr estimatedGas \<Rightarrow> (estimatedGas * 125) sdiv 100
           | Inl e \<Rightarrow> (if functionName q = ''startGame'' then 150000 else 100000)))"

text \<open>The tiered tip: lower when the base fee is below the 0.001 threshold.\<close>

definition priorityFeeFor :: "int \<Rightarrow> int" where
  "priorityFeeFor base =
     (if base < parseEther ''0.001'' then parseEther ''0.0005'' else parseEther ''0.002'')"

definition getOptimizedGasConfig :: "public_client option \<Rightarrow> gas_query \<Rightarrow> gas_config" where
  "getOptimizedGasConfig pc q =
     (let base = fst (networkGasInfo pc);
          gasPrice = snd (networkGasInfo pc);
          limit = estimatedGasLimit pc q;
          priorityFee = priorityFeeFor base;
          calculatedMaxFee = base * 2 + priorityFee;
          gasPriceBasedFee = gasPrice + priorityFee;
          maxFee = (if calculatedMaxFee > gasPriceBasedFee then calculatedMaxFee
                    else gasPriceBasedFee)
      in if priorityFee \<ge> maxFee
         then \<lparr>maxFeePerGas = priorityFee * 3, maxPriorityFeePerGas = priorityFee, gas = limit\<rparr>
         else \<lparr>maxFeePerGas = maxFee, maxPriorityFeePerGas = priorityFee, gas = limit\<rparr>)"

text \<open>
  The value of the outer \<^verbatim>\<open>catch\<close> of \<^verbatim>\<open>getOptimizedGasConfig\<close>. No exception of the
  model reaches it (both network steps have a \<^verbatim>\<open>catch\<close> of their own); it is kept so
  that the fee ordering can be stated for it as well.
\<close>

definition fallbackGasConfig :: "gas_query \<Rightarrow> gas_config" where
  "fallbackGasConfig q =
     \<lparr>maxFeePerGas = parseEther ''0.01'', maxPriorityFeePerGas = parseEther ''0.002'',
      gas = (if functionName q = ''startGame'' then 150000 else 100000)\<rparr>"

section \<open>The pricing rule in the words of the specification\<close>

text \<open>
  The specification's \<^verbatim>\<open>resolveGasPricing\<close>: the max fee is the larger of
  \<open>baseFee * 2 + priorityFee\<close> and \<open>currentGasPrice + priorityFee\<close>; it must exceed the
  priority fee, and is recomputed as \<open>priorityFee * 3\<close> if it does not.
\<close>

definition resolveGasPricing_spec :: "int \<Rightarrow> int \<Rightarrow> int \<Rightarrow> int" where
  "resolveGasPricing_spec baseFee currentGasPrice priorityFee =
     (let maxFee = max (baseFee * 2 + priorityFee) (currentGasPrice + priorityFee)
      in if maxFee > priorityFee then maxFee else priorityFee * 3)"

section \<open>Classifying events\<close>

fun is_toast :: "event \<Rightarrow> bool" where
  "is_toast (ToastInfo t d l) = True"
| "is_toast (ToastSuccess t d l) = True"
| "is_toast (ToastError t d) = True"
| "is_toast e = False"

fun is_failure_toast :: "event \<Rightarrow> bool" where
  "is_failure_toast (ToastError t d) = True"
| "is_failure_toast e = False"

fun is_receipt_wait :: "event \<Rightarrow> bool" where
  "is_receipt_wait (CallWaitForReceipt h) = True"
| "is_receipt_wait e = False"

fun is_sign :: "event \<Rightarrow> bool" where
  "is_sign (CallSignTransaction tx) = True"
| "is_sign e = False"


section \<open>Concrete scenarios\<close>

text \<open>
  A wallet that signs everything, an account with 0.02 units and nonce 7, and a node on
  which every step succeeds: base fee 0.001 gwei, estimate 95432, hash \<open>0xabc\<close>. The
  encoder of the scenarios accepts the calls whose arguments fit the ABI types (a game id
  of 32 bytes, four boards below \<open>2^128\<close>, three moves below 256) and throws on the
  others; numbers print as decimal digits.
\<close>

definition game_id :: hex where
  "game_id = ''0x00000000000000000000000000000000000000000000000000000000000000a1''"

definition isBytes32 :: "hex \<Rightarrow> bool" where
  "isBytes32 h = (length h = 66 \<and> take 2 h = ''0x'')"

definition isUint :: "nat \<Rightarrow> int \<Rightarrow> bool" where
  "isUint bits v = (0 \<le> v \<and> v < 2 ^ bits)"

fun fitsAbi :: "calldata \<Rightarrow> bool" where
  "fitsAbi (StartGame gameId boards moves) =
     (isBytes32 gameId \<and> length boards = 4 \<and> list_all (isUint 128) boards \<and>
      length moves = 3 \<and> list_all (isUint 8) moves)"
| "fitsAbi (Play gameId move board) = (isBytes32 gameId \<and> isUint 8 move \<and> isUint 128 board)"

declare fitsAbi.simps [simp del]

definition wallet_ok :: wallet_client where
  "wallet_ok = \<lparr>signTransaction = (\<lambda>tx. Inr ''0xf86b'')\<rparr>"

definition refs_ok :: refs where
  "refs_ok = \<lparr>userNonce = 7, userBalance = 20000000000000000, userAddress = ''0x1234'',
              walletClient = Some wallet_ok\<rparr>"

definition world_ok :: world where
  "world_ok =
     \<lparr>GAME_CONTRACT_ADDRESS = ''0xe0a0'',
      hostname = ''localhost'',
      abiEncodingError =
        (\<lambda>c. if fitsAbi c then None else Some (Error ''ABI encoding failed'')),
      numberToString = decimal_int,
      typeErrorMessage =
        (\<lambda>t. if t = ThrownNull then ''Cannot read properties of null''
             else ''Cannot read properties of undefined''),
      publicClient_getBlock = Inr \<lparr>baseFeePerGas = Some 1000000\<rparr>,
      publicClient_estimateGas = (\<lambda>req. Inr 95432),
      post = (\<lambda>req. Inr \<lparr>rsp_error = None, rsp_result = ''0xabc''\<rparr>),
      waitForTransactionReceipt = (\<lambda>h. Inr \<lparr>status = Success\<rparr>),
      now_start = 1000, now_sent = 1012, now_confirmed = 1500\<rparr>"

text \<open>The same node with the network down for the public client.\<close>

definition world_offline :: world where
  "world_offline =
     world_ok\<lparr>publicClient_getBlock := Inl (Error ''fetch failed''),
              publicClient_estimateGas := (\<lambda>req. Inl (Error ''fetch failed''))\<rparr>"

text \<open>The same node answering the submission with an error payload.\<close>

definition world_nonce_too_low :: world where
  "world_nonce_too_low =
     world_ok\<lparr>post := (\<lambda>req. Inr \<lparr>rsp_error = Some \<lparr>err_message = ''nonce too low''\<rparr>,
                                   rsp_result = []\<rparr>)\<rparr>"

text \<open>The same node with a \<^verbatim>\<open>post\<close> helper that rejects with \<^verbatim>\<open>0\<close>, or with nothing.\<close>

definition world_falsy_rejection :: world where
  "world_falsy_rejection = world_ok\<lparr>post := (\<lambda>req. Inl ThrownFalsy)\<rparr>"

definition world_undefined_rejection :: world where
  "world_undefined_rejection = world_ok\<lparr>post := (\<lambda>req. Inl ThrownUndefined)\<rparr>"

text \<open>The same node on which the transaction is mined and reverts.\<close>

definition world_reverted :: world where
  "world_reverted = world_ok\<lparr>waitForTransactionReceipt := (\<lambda>h. Inr \<lparr>status = Reverted\<rparr>)\<rparr>"

text \<open>A public client of the second hook whose calls all throw.\<close>

definition client_offline :: public_client where
  "client_offline =
     \<lparr>getBlock_baseFeePerGas = Inl (Error ''fetch failed''),
      getGasPrice = Inl (Error ''fetch failed''),
      client_estimateGas = (\<lambda>q. Inl (Error ''fetch failed''))\<rparr>"

definition query_start :: gas_query where
  "query_start = \<lparr>contractAddress = ''0xe0a0'', functionName = ''startGame'', args = [],
                  account = ''0x1234'', callValue = Some 1000000000000000\<rparr>"

definition query_play :: gas_query where
  "query_play = \<lparr>contractAddress = ''0xe0a0'', functionName = ''play'', args = [2],
                 account = ''0x1234'', callValue = None\<rparr>"

section \<open>Unit constants\<close>

lemma replicate_numeral: "replicate (numeral k) x = x # replicate (pred_numeral k) x"
  by (simp add: numeral_eq_Suc)

lemmas parse_defs =
  parseGwei_def parseEther_def parseUnits_def digit_value_def replicate_numeral

lemma parseGwei_1: "parseGwei ''1'' = 1000000000"
  by (simp add: parse_defs)

lemma parseGwei_1_0: "parseGwei ''1.0'' = 1000000000"
  by (simp add: parse_defs)

lemma parseGwei_2_0: "parseGwei ''2.0'' = 2000000000"
  by (simp add: parse_defs)

lemma parseEther_0_0075: "parseEther ''0.0075'' = 7500000000000000"
  by (simp add: parse_defs)

lemma parseEther_0_005: "parseEther ''0.005'' = 5000000000000000"
  by (simp add: parse_defs)

lemma parseEther_0_001: "parseEther ''0.001'' = 1000000000000000"
  by (simp add: parse_defs)

lemma parseEther_0_002: "parseEther ''0.002'' = 2000000000000000"
  by (simp add: parse_defs)

lemma parseEther_0_0005: "parseEther ''0.0005'' = 500000000000000"
  by (simp add: parse_defs)

lemma parseEther_0_01: "parseEther ''0.01'' = 10000000000000000"
  by (simp add: parse_defs)

lemmas unit_consts =
  parseGwei_1 parseGwei_1_0 parseGwei_2_0 parseEther_0_0075 parseEther_0_005
  parseEther_0_001 parseEther_0_002 parseEther_0_0005 parseEther_0_01

section \<open>Gas pricing\<close>

lemma priorityFeeFor_pos: "0 < priorityFeeFor base"
  by (simp add: priorityFeeFor_def unit_consts)

lemma getOptimizedGasConfig_priority:
  "maxPriorityFeePerGas (getOptimizedGasConfig pc q) = priorityFeeFor (fst (networkGasInfo pc))"
  by (simp add: getOptimizedGasConfig_def Let_def)

text \<open>
  The second hook keeps the EIP-1559 ordering on every input, whatever the node answers:
  the validation step repairs any pair the two formulas could get wrong.
\<close>

lemma getOptimizedGasConfig_fee_order:
  "maxPriorityFeePerGas (getOptimizedGasConfig pc q) < maxFeePerGas (getOptimizedGasConfig pc q)"
  using priorityFeeFor_pos [of "fst (networkGasInfo pc)"]
  by (simp add: getOptimizedGasConfig_def Let_def)

lemma fallbackGasConfig_fee_order:
  "maxPriorityFeePerGas (fallbackGasConfig q) < maxFeePerGas (fallbackGasConfig q)"
  by (simp add: fallbackGasConfig_def unit_consts)

text \<open>
  The first hook has no such step. When the block is read, its pair is ordered exactly when
  twice the base fee exceeds the fixed tip of 1 gwei.
\<close>

lemma getCurrentGasPrices_fee_order_iff:
  "maxPriorityFeePerGas (fst (getCurrentGasPrices (w\<lparr>publicClient_getBlock := Inr b\<rparr>)))
     < maxFeePerGas (fst (getCurrentGasPrices (w\<lparr>publicClient_getBlock := Inr b\<rparr>)))
   \<longleftrightarrow> 1000000000 < or_else (baseFeePerGas b) 1000000000 * 2"
  by (simp add: getCurrentGasPrices_def Let_def unit_consts)

text \<open>
  C1 (the fee ordering of every computed pair), at the input on which the first hook breaks
  it: with a base fee of 0.001 gwei, \<^verbatim>\<open>getCurrentGasPrices\<close> returns a max fee of
  0.002 gwei under a priority fee of 1 gwei, the pair the node rejects.
\<close>

theorem getCurrentGasPrices_low_base_fee:
  "fst (getCurrentGasPrices (w\<lparr>publicClient_getBlock := Inr \<lparr>baseFeePerGas = Some 1000000\<rparr>\<rparr>))
     = \<lparr>maxFeePerGas = 2000000, maxPriorityFeePerGas = 1000000000\<rparr> \<and>
   \<not> maxPriorityFeePerGas
       (fst (getCurrentGasPrices
          (w\<lparr>publicClient_getBlock := Inr \<lparr>baseFeePerGas = Some 1000000\<rparr>\<rparr>)))
     < maxFeePerGas
       (fst (getCurrentGasPrices
          (w\<lparr>publicClient_getBlock := Inr \<lparr>baseFeePerGas = Some 1000000\<rparr>\<rparr>)))"
  by (simp add: getCurrentGasPrices_def Let_def or_else_def unit_consts)

text \<open>
  With the network down the second hook prices from its own constants: base fee 0.001 and
  gas price 0.002, hence the higher tip of 0.002 and a max fee of 0.004 (in the units of
  \<^verbatim>\<open>parseEther\<close>).
\<close>

lemma getOptimizedGasConfig_offline:
  "maxFeePerGas (getOptimizedGasConfig (Some client_offline) q) = 4000000000000000 \<and>
   maxPriorityFeePerGas (getOptimizedGasConfig (Some client_offline) q) = 2000000000000000"
  by (simp add: getOptimizedGasConfig_def networkGasInfo_def priorityFeeFor_def
      client_offline_def Let_def unit_consts)

text \<open>
  C7: when \<^verbatim>\<open>getBlock\<close> throws, \<^verbatim>\<open>getCurrentGasPrices\<close> returns the pair
  (2 gwei, 1 gwei) as an ordinary value, after the one call that failed.
\<close>

theorem getCurrentGasPrices_fallback:
  assumes "publicClient_getBlock w = Inl e"
  shows "getCurrentGasPrices w =
           (\<lparr>maxFeePerGas = 2000000000, maxPriorityFeePerGas = 1000000000\<rparr>, [CallGetBlock])"
  using assms by (simp add: getCurrentGasPrices_def unit_consts)

theorem getCurrentGasPrices_fallback_witness:
  "publicClient_getBlock world_offline = Inl (Error ''fetch failed'') \<and>
   getCurrentGasPrices world_offline =
     (\<lparr>maxFeePerGas = 2000000000, maxPriorityFeePerGas = 1000000000\<rparr>, [CallGetBlock])"
proof -
  have down: "publicClient_getBlock world_offline = Inl (Error ''fetch failed'')"
    by (simp add: world_offline_def)
  from getCurrentGasPrices_fallback [OF down] down show ?thesis by simp
qed

text \<open>
  What \<^verbatim>\<open>getCurrentGasPrices\<close> of the first hook returns when the block is read: twice
  the base fee (1 gwei standing in for a missing or zero base fee) and the fixed tip.
\<close>

lemma getCurrentGasPrices_block:
  "fst (getCurrentGasPrices (w\<lparr>publicClient_getBlock := Inr b\<rparr>)) =
     \<lparr>maxFeePerGas = or_else (baseFeePerGas b) 1000000000 * 2,
      maxPriorityFeePerGas = 1000000000\<rparr>"
  by (simp add: getCurrentGasPrices_def Let_def unit_consts)

text \<open>
  C2, for the operation that implements it: \<^verbatim>\<open>getOptimizedGasConfig\<close> follows the
  specification's rule (the larger of the two formulas, the check against the priority
  fee, three times the priority fee when the check fails) on the base fee and the gas price
  it resolved, with the tiered tip as priority fee.
\<close>

theorem gas_pricing_rule:
  "maxFeePerGas (getOptimizedGasConfig pc q) =
     resolveGasPricing_spec (fst (networkGasInfo pc)) (snd (networkGasInfo pc))
       (priorityFeeFor (fst (networkGasInfo pc))) \<and>
   maxPriorityFeePerGas (getOptimizedGasConfig pc q) = priorityFeeFor (fst (networkGasInfo pc))"
proof
  show "maxFeePerGas (getOptimizedGasConfig pc q) =
     resolveGasPricing_spec (fst (networkGasInfo pc)) (snd (networkGasInfo pc))
       (priorityFeeFor (fst (networkGasInfo pc)))"
    by (simp add: getOptimizedGasConfig_def resolveGasPricing_spec_def Let_def max_def)
next
  show "maxPriorityFeePerGas (getOptimizedGasConfig pc q) =
      priorityFeeFor (fst (networkGasInfo pc))"
    by (rule getOptimizedGasConfig_priority)
qed

text \<open>
  The claim as stated fails on the first hook: at a base fee of 1 gwei it returns a max fee
  of 2 gwei, and no gas price makes the specification's rule give that (the rule gives at
  least \<open>baseFee * 2 + priorityFee\<close>, 3 gwei).
\<close>

theorem gas_pricing_rule_counterexample:
  "\<not> (\<exists>currentGasPrice.
        maxFeePerGas (fst (getCurrentGasPrices
          (world_ok\<lparr>publicClient_getBlock := Inr \<lparr>baseFeePerGas = Some 1000000000\<rparr>\<rparr>)))
        = resolveGasPricing_spec 1000000000 currentGasPrice 1000000000)"
  by (simp add: getCurrentGasPrices_def Let_def or_else_def unit_consts
      resolveGasPricing_spec_def max_def)

section \<open>Gas limit\<close>

text \<open>
  C3, as the code has it: when the estimation call throws, \<^verbatim>\<open>getOptimizedGasConfig\<close>
  falls back to 150000 for \<^verbatim>\<open>startGame\<close> and to 100000 for any other function, while
  \<^verbatim>\<open>estimateGas\<close> of the first hook, which is not told the operation, falls back to
  100000 for every call.
\<close>

theorem gas_limit_fallback:
  "(client_estimateGas c q = Inl e \<longrightarrow>
      gas (getOptimizedGasConfig (Some c) q) =
        (if functionName q = ''startGame'' then 150000 else 100000)) \<and>
   (publicClient_estimateGas w
        \<lparr>est_account = userAddress r, est_to = GAME_CONTRACT_ADDRESS w, est_data = d\<rparr> = Inl e'
      \<longrightarrow> fst (estimateGas w r d) = 100000)"
  by (simp add: getOptimizedGasConfig_def estimatedGasLimit_def estimateGas_def Let_def)

theorem gas_limit_fallback_witness:
  "client_estimateGas client_offline query_start = Inl (Error ''fetch failed'') \<and>
   gas (getOptimizedGasConfig (Some client_offline) query_start) = 150000 \<and>
   client_estimateGas client_offline query_play = Inl (Error ''fetch failed'') \<and>
   gas (getOptimizedGasConfig (Some client_offline) query_play) = 100000 \<and>
   publicClient_estimateGas world_offline
     \<lparr>est_account = userAddress refs_ok, est_to = GAME_CONTRACT_ADDRESS world_offline,
      est_data = StartGame ''0x01'' [1, 2, 3, 4] [0, 1, 2]\<rparr> = Inl (Error ''fetch failed'') \<and>
   fst (estimateGas world_offline refs_ok (StartGame ''0x01'' [1, 2, 3, 4] [0, 1, 2])) = 100000"
proof -
  have a: "client_estimateGas client_offline query_start = Inl (Error ''fetch failed'')"
    and b: "client_estimateGas client_offline query_play = Inl (Error ''fetch failed'')"
    by (simp_all add: client_offline_def)
  have c: "publicClient_estimateGas world_offline
     \<lparr>est_account = userAddress refs_ok, est_to = GAME_CONTRACT_ADDRESS world_offline,
      est_data = StartGame ''0x01'' [1, 2, 3, 4] [0, 1, 2]\<rparr> = Inl (Error ''fetch failed'')"
    by (simp add: world_offline_def)
  have s: "functionName query_start = ''startGame''" and p: "functionName query_play = ''play''"
    by (simp_all add: query_start_def query_play_def)
  from gas_limit_fallback [of client_offline query_start "Error ''fetch failed''"
      world_offline refs_ok "StartGame ''0x01'' [1, 2, 3, 4] [0, 1, 2]" "Error ''fetch failed''"]
    gas_limit_fallback [of client_offline query_play "Error ''fetch failed''"
      world_offline refs_ok "StartGame ''0x01'' [1, 2, 3, 4] [0, 1, 2]" "Error ''fetch failed''"]
    a b c s p
  show ?thesis by simp
qed

text \<open>
  The claim as stated fails on the first hook: with the estimation call throwing, the gas
  limit for the call data of a game initialization is 100000, not 150000.
\<close>

theorem gas_limit_fallback_counterexample:
  "fst (estimateGas world_offline refs_ok (StartGame ''0x01'' [1, 2, 3, 4] [0, 1, 2])) \<noteq> 150000"
  by (simp add: estimateGas_def world_offline_def world_ok_def refs_ok_def Let_def)

section \<open>The balance check\<close>

text \<open>Rounding stays within half a unit and never crosses an integer bound.\<close>

lemma rhe_lower: "q - 1/2 \<le> of_int (round_half_even q)"
  unfolding round_half_even_def Let_def
  by (auto; linarith)

lemma rhe_upper: "of_int (round_half_even q) \<le> q + 1/2"
  unfolding round_half_even_def Let_def
  by (auto; linarith)

lemma floor_le_rhe: "\<lfloor>q\<rfloor> \<le> round_half_even q"
  unfolding round_half_even_def Let_def by auto

lemma rhe_le_ceiling: "round_half_even q \<le> \<lceil>q\<rceil>"
proof (cases "q = of_int \<lfloor>q\<rfloor>")
  case True
  then have "q - of_int \<lfloor>q\<rfloor> = 0" by simp
  then have "round_half_even q = \<lfloor>q\<rfloor>"
    unfolding round_half_even_def Let_def by simp
  then show ?thesis by (simp add: floor_le_ceiling)
next
  case False
  then have "\<lceil>q\<rceil> = \<lfloor>q\<rfloor> + 1"
    by (metis ceiling_altdef)
  moreover have "round_half_even q \<le> \<lfloor>q\<rfloor> + 1"
    unfolding round_half_even_def Let_def by auto
  ultimately show ?thesis by simp
qed

lemma rhe_ge_int:
  assumes "of_int k \<le> q"
  shows "k \<le> round_half_even q"
proof -
  from assms have "k \<le> \<lfloor>q\<rfloor>"
    by (simp add: le_floor_iff)
  with floor_le_rhe [of q] show ?thesis
    by linarith
qed

lemma rhe_le_int: "q \<le> of_int k \<Longrightarrow> round_half_even q \<le> k"
  using rhe_le_ceiling [of q] by (meson ceiling_le_iff order_trans)

text \<open>
  A value of at least \<open>2^K\<close> units rounds to at least \<open>2^K\<close>, one below \<open>2^K\<close> to at most
  \<open>2^K\<close>, and within one binade the rounding is to multiples of \<open>2^(K - 52)\<close>.
\<close>

lemma double_units_ge:
  assumes "2 ^ K \<le> y" and "52 \<le> K"
  shows "2 ^ K \<le> double_units y"
proof -
  let ?n = "\<lfloor>y\<rfloor>"
  let ?s = "nat (bitlen ?n - 53)"
  from assms(1) have n: "2 ^ K \<le> ?n"
    by (simp add: le_floor_iff)
  moreover have "(0::int) < 2 ^ K"
    by simp
  ultimately have pos: "0 < ?n"
    by linarith
  from bitlen_bounds [OF pos] have lo: "2 ^ nat (bitlen ?n - 1) \<le> ?n"
    and hi: "?n < 2 ^ nat (bitlen ?n)"
    by simp_all
  from n hi have "(2::int) ^ K < 2 ^ nat (bitlen ?n)"
    by linarith
  then have K: "K < nat (bitlen ?n)"
    by simp
  with assms(2) have s: "?s + 52 = nat (bitlen ?n - 1)" "K \<le> ?s + 52"
    by auto
  from lo have "of_int (2 ^ (?s + 52)) \<le> (of_int ?n :: rat)"
    unfolding s(1) by (simp only: of_int_le_iff)
  also have "\<dots> \<le> y" by simp
  finally have "(2::rat) ^ (?s + 52) \<le> y" by simp
  then have "(2::rat) ^ 52 * 2 ^ ?s \<le> y"
    by (simp add: power_add mult.commute)
  then have "(2::rat) ^ 52 \<le> y / 2 ^ ?s"
    by (simp add: pos_le_divide_eq)
  then have "of_int (2 ^ 52) \<le> y / 2 ^ ?s"
    by simp
  then have r: "2 ^ 52 \<le> round_half_even (y / 2 ^ ?s)"
    by (rule rhe_ge_int)
  have "(2::int) ^ K \<le> 2 ^ (?s + 52)"
    using s(2) by (simp add: power_increasing)
  also have "\<dots> = 2 ^ 52 * 2 ^ ?s"
    by (simp add: power_add)
  also from r have "\<dots> \<le> round_half_even (y / 2 ^ ?s) * 2 ^ ?s"
    by (rule mult_right_mono) simp
  finally show ?thesis
    by (simp add: double_units_def Let_def)
qed

lemma double_units_le:
  assumes "0 \<le> y" and "y < 2 ^ K" and "53 \<le> K"
  shows "double_units y \<le> 2 ^ K"
proof -
  let ?n = "\<lfloor>y\<rfloor>"
  let ?s = "nat (bitlen ?n - 53)"
  from assms(2) have "?n < 2 ^ K"
    by (simp add: floor_less_iff)
  then have "bitlen ?n \<le> int K"
    by (simp add: bitlen_le_iff_power)
  with assms(3) have sK: "?s + 53 \<le> K"
    by linarith
  have "bitlen ?n \<le> int (?s + 53)"
    by linarith
  then have "?n < 2 ^ nat (int (?s + 53))"
    unfolding bitlen_le_iff_power by (rule conjunct2)
  then have "?n < 2 ^ (?s + 53)"
    by (simp only: nat_int)
  then have "?n + 1 \<le> 2 ^ (?s + 53)"
    by simp
  then have "of_int (?n + 1) \<le> (of_int (2 ^ (?s + 53)) :: rat)"
    by (simp only: of_int_le_iff)
  moreover have "y < of_int (?n + 1)"
    by (rule floor_correct [THEN conjunct2])
  ultimately have "y \<le> 2 ^ (?s + 53)"
    by simp
  then have "y \<le> 2 ^ 53 * 2 ^ ?s"
    by (simp add: power_add mult.commute)
  then have "y / 2 ^ ?s \<le> 2 ^ 53"
    by (simp add: pos_divide_le_eq)
  then have "y / 2 ^ ?s \<le> of_int (2 ^ 53)"
    by simp
  then have r: "round_half_even (y / 2 ^ ?s) \<le> 2 ^ 53"
    by (rule rhe_le_int)
  have "round_half_even (y / 2 ^ ?s) * 2 ^ ?s \<le> 2 ^ 53 * 2 ^ ?s"
    using r by (rule mult_right_mono) simp
  also have "\<dots> = 2 ^ (?s + 53)"
    by (simp add: power_add)
  also have "\<dots> \<le> 2 ^ K"
    using sK by (simp add: power_increasing)
  finally show ?thesis
    by (simp add: double_units_def Let_def)
qed

lemma double_units_binade:
  assumes "2 ^ K \<le> y" and "y < 2 ^ Suc K" and "52 \<le> K"
  shows "double_units y = round_half_even (y / 2 ^ (K - 52)) * 2 ^ (K - 52)"
proof -
  let ?n = "\<lfloor>y\<rfloor>"
  from assms(1) have n: "2 ^ K \<le> ?n"
    by (simp add: le_floor_iff)
  from assms(2) have m: "?n < 2 ^ Suc K"
    by (simp add: floor_less_iff)
  have "(0::int) < 2 ^ K"
    by simp
  with n have pos: "0 < ?n"
    by linarith
  from bitlen_bounds [OF pos] have lo: "2 ^ nat (bitlen ?n - 1) \<le> ?n"
    and hi: "?n < 2 ^ nat (bitlen ?n)"
    by simp_all
  from n hi have "(2::int) ^ K < 2 ^ nat (bitlen ?n)"
    by linarith
  then have 1: "K < nat (bitlen ?n)"
    by simp
  from lo m have p: "(2::int) ^ nat (bitlen ?n - 1) < 2 ^ Suc K"
    by linarith
  have 2: "nat (bitlen ?n - 1) < Suc K"
    by (rule power_less_imp_less_exp [OF _ p]) simp
  from 1 2 have "bitlen ?n = int K + 1"
    by linarith
  with assms(3) have "nat (bitlen ?n - 53) = K - 52"
    by linarith
  then show ?thesis
    by (simp add: double_units_def Let_def)
qed

lemma double_units_nonneg:
  assumes "0 \<le> y"
  shows "0 \<le> double_units y"
proof -
  let ?s = "nat (bitlen \<lfloor>y\<rfloor> - 53)"
  from assms have "of_int 0 \<le> y / 2 ^ ?s"
    by simp
  then have "0 \<le> round_half_even (y / 2 ^ ?s)"
    by (rule rhe_ge_int)
  then show ?thesis
    by (simp add: double_units_def Let_def)
qed


lemma double_magnitude_nonneg: "0 \<le> x \<Longrightarrow> 0 \<le> double_magnitude x"
  by (simp add: double_magnitude_def double_units_nonneg)


text \<open>Between 1/128 and 1/64 doubles are the multiples of \<open>2^-59\<close>.\<close>

lemma double_magnitude_binade:
  assumes "1 / 128 \<le> x" and "x < 1 / 64"
  shows "double_magnitude x = of_int (round_half_even (x * 2 ^ 59)) / 2 ^ 59"
proof -
  have lo: "2 ^ 1067 \<le> x * 2 ^ 1074"
    using assms(1) by simp
  have hi: "x * 2 ^ 1074 < 2 ^ Suc 1067"
    using assms(2) by simp
  have k: "(52::nat) \<le> 1067"
    by simp
  have q: "x * 2 ^ 1074 / 2 ^ (1067 - 52) = x * 2 ^ 59"
    by simp
  have "double_units (x * 2 ^ 1074) = round_half_even (x * 2 ^ 59) * 2 ^ (1067 - 52)"
    using double_units_binade [OF lo hi k] unfolding q .
  then show ?thesis
    by (simp add: double_magnitude_def)
qed

lemma double_magnitude_small:
  assumes "0 \<le> x" and "x < 1 / 128"
  shows "double_magnitude x \<le> 1 / 128"
proof -
  have hi: "x * 2 ^ 1074 < 2 ^ 1067"
    using assms(2) by simp
  have lo: "0 \<le> x * 2 ^ 1074"
    using assms(1) by simp
  have k: "(53::nat) \<le> 1067"
    by simp
  from double_units_le [OF lo hi k]
  have "(of_int (double_units (x * 2 ^ 1074)) :: rat) \<le> of_int (2 ^ 1067)"
    by (simp only: of_int_le_iff)
  then show ?thesis
    by (simp add: double_magnitude_def)
qed

lemma double_magnitude_large:
  assumes "1 / 64 \<le> x"
  shows "1 / 64 \<le> double_magnitude x"
proof -
  have lo: "2 ^ 1068 \<le> x * 2 ^ 1074"
    using assms by simp
  have k: "(52::nat) \<le> 1068"
    by simp
  from double_units_ge [OF lo k]
  have "(of_int (2 ^ 1068) :: rat) \<le> of_int (double_units (x * 2 ^ 1074))"
    by (simp only: of_int_le_iff)
  then show ?thesis
    by (simp add: double_magnitude_def)
qed

text \<open>The literal \<^verbatim>\<open>0.01\<close> is the double \<open>5764607523034235 / 2^59\<close>, just above 1/100.\<close>

lemma to_Number_hundredth: "to_Number (1 / 100) = Num (5764607523034235 / 2 ^ 59)"
proof -
  have "double_magnitude (1 / 100) = of_int (round_half_even ((1 / 100) * 2 ^ 59)) / 2 ^ 59"
    by (rule double_magnitude_binade) simp_all
  also have "round_half_even ((1 / 100) * 2 ^ 59) = 5764607523034235"
  proof -
    have "\<lfloor>(1 / 100) * 2 ^ 59 :: rat\<rfloor> = 5764607523034234"
      by (simp add: floor_eq_iff)
    then show ?thesis
      by (simp add: round_half_even_def Let_def)
  qed
  finally show ?thesis
    by (simp add: to_Number_def)
qed


text \<open>
  The balance check is exact: the double read back from the printed balance is below the
  double \<^verbatim>\<open>0.01\<close> exactly when the balance is below \<open>10^16\<close> wei.
\<close>

lemma js_less_hundredth_iff:
  "js_less (parseFloat (formatEther b)) (to_Number (1 / 100)) \<longleftrightarrow> b < 10 ^ 16"
proof -
  let ?x = "formatEther b"
  let ?D = "5764607523034235 / 2 ^ 59 :: rat"
  consider (neg) "b \<le> 0" | (low) "0 < b" "b < 10 ^ 16" | (high) "10 ^ 16 \<le> b"
    by linarith
  then show ?thesis
  proof cases
    case neg
    then have x: "?x \<le> 0"
      by (simp add: formatEther_def divide_le_0_iff)
    then have "0 \<le> double_magnitude \<bar>?x\<bar>"
      by (simp add: double_magnitude_nonneg)
    with x have "sgn ?x * double_magnitude \<bar>?x\<bar> \<le> 0"
      by (simp add: mult_le_0_iff sgn_if)
    then have "js_less (to_Number ?x) (Num ?D)"
      using x by (simp add: to_Number_def Let_def)
    with neg show ?thesis
      by (simp add: parseFloat_def to_Number_hundredth)
  next
    case low
    then have pos: "0 < ?x"
      by (simp add: formatEther_def)
    from low(2) have "b \<le> 10 ^ 16 - 1"
      by simp
    then have "(of_int b :: rat) \<le> of_int (10 ^ 16 - 1)"
      by (simp only: of_int_le_iff)
    then have ub: "?x \<le> (10 ^ 16 - 1) / 10 ^ 18"
      by (simp add: formatEther_def divide_right_mono)
    have m: "double_magnitude ?x < ?D"
    proof (cases "?x < 1 / 128")
      case True
      have "double_magnitude ?x \<le> 1 / 128"
        by (rule double_magnitude_small) (use pos True in simp_all)
      then show ?thesis by simp
    next
      case False
      with ub have "double_magnitude ?x = of_int (round_half_even (?x * 2 ^ 59)) / 2 ^ 59"
        by (intro double_magnitude_binade) simp_all
      moreover have "round_half_even (?x * 2 ^ 59) < 5764607523034235"
      proof -
        from ub have "?x * 2 ^ 59 + 1 / 2 < 5764607523034235"
          by simp
        with rhe_upper [of "?x * 2 ^ 59"]
        have "(of_int (round_half_even (?x * 2 ^ 59)) :: rat) < of_int 5764607523034235"
          by simp
        then show ?thesis
          by (simp only: of_int_less_iff)
      qed
      ultimately show ?thesis
        by (simp add: divide_strict_right_mono)
    qed
    then have "\<not> 2 ^ 1024 \<le> double_magnitude ?x"
      by simp
    with m pos have "js_less (to_Number ?x) (Num ?D)"
      by (simp add: to_Number_def Let_def)
    with low show ?thesis
      by (simp add: parseFloat_def to_Number_hundredth)
  next
    case high
    then have "(of_int (10 ^ 16) :: rat) \<le> of_int b"
      by (simp only: of_int_le_iff)
    then have lb: "1 / 100 \<le> ?x"
      by (simp add: formatEther_def)
    then have pos: "0 < ?x"
      by simp
    have m: "?D \<le> double_magnitude ?x"
    proof (cases "?x < 1 / 64")
      case False
      have "1 / 64 \<le> double_magnitude ?x"
        by (rule double_magnitude_large) (use False in simp)
      then show ?thesis by simp
    next
      case True
      with lb have "double_magnitude ?x = of_int (round_half_even (?x * 2 ^ 59)) / 2 ^ 59"
        by (intro double_magnitude_binade) simp_all
      moreover have "5764607523034235 \<le> round_half_even (?x * 2 ^ 59)"
      proof -
        from lb have "5764607523034234 < ?x * 2 ^ 59 - 1 / 2"
          by simp
        with rhe_lower [of "?x * 2 ^ 59"]
        have "(of_int 5764607523034234 :: rat) < of_int (round_half_even (?x * 2 ^ 59))"
          by simp
        then have "5764607523034234 < round_half_even (?x * 2 ^ 59)"
          by (simp only: of_int_less_iff)
        then show ?thesis by simp
      qed
      ultimately show ?thesis
        by (simp add: divide_right_mono)
    qed
    from m pos have "\<not> js_less (to_Number ?x) (Num ?D)"
      by (simp add: to_Number_def Let_def)
    with high show ?thesis
      by (simp add: parseFloat_def to_Number_hundredth)
  qed
qed

section \<open>Sending a transaction\<close>

lemma gasParams_events: "snd (gasParams w mf mp) = [] \<or> snd (gasParams w mf mp) = [CallGetBlock]"
  by (simp add: gasParams_def getCurrentGasPrices_def Let_def split: sum.splits)

lemma gasLimit_events:
  "snd (gasLimit w r d g) = [] \<or> (\<exists>req. snd (gasLimit w r d g) = [CallEstimateGas req])"
  by (simp add: gasLimit_def estimateGas_def Let_def split: sum.splits)

lemma setupEvents_no_toast [simp]: "filter is_toast (setupEvents w r d g mf mp) = []"
  using gasParams_events [of w mf mp] gasLimit_events [of w r d g]
  by (auto simp add: setupEvents_def)

lemma setupEvents_no_failure_toast [simp]:
  "filter is_failure_toast (setupEvents w r d g mf mp) = []"
  using gasParams_events [of w mf mp] gasLimit_events [of w r d g]
  by (auto simp add: setupEvents_def)

lemma setupEvents_no_wait [simp]: "filter is_receipt_wait (setupEvents w r d g mf mp) = []"
  using gasParams_events [of w mf mp] gasLimit_events [of w r d g]
  by (auto simp add: setupEvents_def)

lemma setupEvents_no_sign [simp]: "filter is_sign (setupEvents w r d g mf mp) = []"
  using gasParams_events [of w mf mp] gasLimit_events [of w r d g]
  by (auto simp add: setupEvents_def)

text \<open>
  C5: when the node answers the submission with an error payload, the call fails with an
  error whose message is the payload's; the events are the setup calls, the signature, the
  post and the failure toast, so no receipt is waited for and neither the "sent" nor the
  "confirmed" toast is shown.
\<close>

theorem rpc_error_response:
  assumes "walletClient r = Some provider"
    and "userAddress r \<noteq> []"
    and "signTransaction provider (signRequest w r d n g mf mp) = Inr signed"
    and "post w (sendRequest w signed) = Inr response"
    and "rsp_error response = Some err"
  shows "sendRawTransactionAndConfirm w r successText d n g mf mp =
           (Inl (Error (err_message err)),
            setupEvents w r d g mf mp @
              [CallSignTransaction (signRequest w r d n g mf mp),
               CallPost (sendRequest w signed),
               ToastError ''Failed to send transaction.'' (''Error: '' @ err_message err)]) \<and>
         filter is_receipt_wait (snd (sendRawTransactionAndConfirm w r successText d n g mf mp))
           = [] \<and>
         filter is_toast (snd (sendRawTransactionAndConfirm w r successText d n g mf mp))
           = [ToastError ''Failed to send transaction.'' (''Error: '' @ err_message err)]"
  using assms
  by (simp add: sendRawTransactionAndConfirm_def sendAttempt_def failureDescription_def Let_def)

lemma fitsAbi_start: "fitsAbi (StartGame game_id [1, 2, 3, 4] [0, 1, 2])"
  by (simp add: fitsAbi.simps game_id_def isBytes32_def isUint_def)

lemma fitsAbi_play: "fitsAbi (Play game_id 2 99)"
  by (simp add: fitsAbi.simps game_id_def isBytes32_def isUint_def)

lemma not_fitsAbi_short: "\<not> fitsAbi (StartGame ''0x01'' [1, 2, 3, 4] [0, 1, 2])"
  by (simp add: fitsAbi.simps isBytes32_def)

lemmas scenario_defs =
  world_ok_def world_offline_def world_nonce_too_low_def world_reverted_def
  world_falsy_rejection_def world_undefined_rejection_def refs_ok_def wallet_ok_def
  fitsAbi_start fitsAbi_play not_fitsAbi_short

lemmas flow_defs =
  signRequest_def sendRequest_def rpcUrl_def setupEvents_def gasParams_def gasLimit_def
  truthy_def getCurrentGasPrices_def estimateGas_def or_else_def Let_def
  signed_divide_int_def failureDescription_def encodeFunctionData_def unit_consts

theorem rpc_error_response_witness:
  "fst (sendRawTransactionAndConfirm world_nonce_too_low refs_ok (Some ''Played move 3'')
          (Play ''0x01'' 2 99) 7 None None None) = Inl (Error ''nonce too low'') \<and>
   filter is_receipt_wait
     (snd (sendRawTransactionAndConfirm world_nonce_too_low refs_ok (Some ''Played move 3'')
             (Play ''0x01'' 2 99) 7 None None None)) = [] \<and>
   filter is_toast
     (snd (sendRawTransactionAndConfirm world_nonce_too_low refs_ok (Some ''Played move 3'')
             (Play ''0x01'' 2 99) 7 None None None))
     = [ToastError ''Failed to send transaction.'' ''Error: nonce too low'']"
proof -
  let ?err = "\<lparr>err_message = ''nonce too low''\<rparr>"
  let ?rsp = "\<lparr>rsp_error = Some ?err, rsp_result = []\<rparr>"
  have 1: "walletClient refs_ok = Some wallet_ok"
    and 2: "userAddress refs_ok \<noteq> []"
    by (simp_all add: refs_ok_def)
  have 3: "signTransaction wallet_ok
             (signRequest world_nonce_too_low refs_ok (Play ''0x01'' 2 99) 7 None None None)
           = Inr ''0xf86b''"
    by (simp add: wallet_ok_def)
  have 4: "post world_nonce_too_low (sendRequest world_nonce_too_low ''0xf86b'') = Inr ?rsp"
    by (simp add: world_nonce_too_low_def)
  have 5: "rsp_error ?rsp = Some ?err"
    by simp
  from rpc_error_response [OF 1 2 3 4 5, of "Some ''Played move 3''"]
  show ?thesis by simp
qed

subsection \<open>Outcome of the try block\<close>



lemma sendAttempt_sign:
  "filter is_sign (snd (sendAttempt w r successText d n g mf mp)) = [] \<or>
   filter is_sign (snd (sendAttempt w r successText d n g mf mp))
     = [CallSignTransaction (signRequest w r d n g mf mp)]"
  by (simp add: sendAttempt_def Let_def split: option.splits sum.splits)


subsection \<open>Outcome of the catch block\<close>



lemma sendRaw_sign:
  "filter is_sign (snd (sendRawTransactionAndConfirm w r successText d n g mf mp))
     = filter is_sign (snd (sendAttempt w r successText d n g mf mp))"
  by (simp add: sendRawTransactionAndConfirm_def split: prod.splits sum.splits thrown.splits)

text \<open>The failing steps are these seven and no others.\<close>

lemma failing_step_cases:
  assumes "\<not> allStepsSucceed w r d n g mf mp"
  shows "walletClient r = None \<or>
         (\<exists>provider. walletClient r = Some provider \<and>
           (userAddress r = [] \<or>
            (\<exists>t. signTransaction provider (signRequest w r d n g mf mp) = Inl t) \<or>
            (\<exists>signed. signTransaction provider (signRequest w r d n g mf mp) = Inr signed \<and>
              ((\<exists>t. post w (sendRequest w signed) = Inl t) \<or>
               (\<exists>response. post w (sendRequest w signed) = Inr response \<and>
                 ((\<exists>err. rsp_error response = Some err) \<or>
                  (\<exists>t. waitForTransactionReceipt w (rsp_result response) = Inl t) \<or>
                  (\<exists>rc. waitForTransactionReceipt w (rsp_result response) = Inr rc \<and>
                     status rc = Reverted)))))))"
  using assms
  by (auto simp add: allStepsSucceed_def split: option.splits sum.splits)




subsection \<open>The transaction that is signed\<close>

lemma signed_transaction:
  assumes "CallSignTransaction tx \<in> set (snd (sendRawTransactionAndConfirm w r successText d n g mf mp))"
  shows "tx = signRequest w r d n g mf mp"
proof -
  let ?evs = "snd (sendAttempt w r successText d n g mf mp)"
  from assms have "CallSignTransaction tx
      \<in> set (filter is_sign (snd (sendRawTransactionAndConfirm w r successText d n g mf mp)))"
    by simp
  then have m: "CallSignTransaction tx \<in> set (filter is_sign ?evs)"
    unfolding sendRaw_sign .
  from sendAttempt_sign [of w r successText d n g mf mp] show ?thesis
  proof
    assume e: "filter is_sign ?evs = []"
    from m have "CallSignTransaction tx \<in> set []"
      unfolding e .
    then show ?thesis by simp
  next
    assume e: "filter is_sign ?evs = [CallSignTransaction (signRequest w r d n g mf mp)]"
    from m have "CallSignTransaction tx \<in> set [CallSignTransaction (signRequest w r d n g mf mp)]"
      unfolding e .
    then show ?thesis by simp
  qed
qed

text \<open>
  C10: the transaction handed to the wallet carries the caller's fee pair only when both
  fees are given and non-zero, and the pair of \<^verbatim>\<open>getCurrentGasPrices\<close> in every other
  case; it carries the caller's gas limit only when that is given and non-zero, and the
  result of \<^verbatim>\<open>estimateGas\<close> otherwise.
\<close>

theorem fee_parameters_used:
  assumes "CallSignTransaction tx \<in> set (snd (sendRawTransactionAndConfirm w r successText d n g mf mp))"
  shows "(tx_maxFeePerGas tx, tx_maxPriorityFeePerGas tx) =
           (case (mf, mp) of
              (Some f, Some p) \<Rightarrow>
                if f \<noteq> 0 \<and> p \<noteq> 0 then (f, p)
                else (maxFeePerGas (fst (getCurrentGasPrices w)),
                      maxPriorityFeePerGas (fst (getCurrentGasPrices w)))
            | _ \<Rightarrow> (maxFeePerGas (fst (getCurrentGasPrices w)),
                    maxPriorityFeePerGas (fst (getCurrentGasPrices w)))) \<and>
         tx_gas tx =
           (case g of
              Some l \<Rightarrow> if l \<noteq> 0 then l else fst (estimateGas w r d)
            | None \<Rightarrow> fst (estimateGas w r d))"
proof -
  from assms have "tx = signRequest w r d n g mf mp"
    by (rule signed_transaction)
  then show ?thesis
    by (simp add: signRequest_def gasParams_def gasLimit_def truthy_def split: option.splits)
qed

theorem fee_parameters_used_witness:
  "CallSignTransaction
     \<lparr>tx_to = ''0xe0a0'', tx_account = ''0x1234'', tx_data = Play ''0x01'' 2 99, tx_nonce = 7,
      tx_gas = 114518, tx_maxFeePerGas = 2000000, tx_maxPriorityFeePerGas = 1000000000\<rparr>
     \<in> set (snd (sendRawTransactionAndConfirm world_ok refs_ok None (Play ''0x01'' 2 99) 7
                   (Some 0) (Some 5000000000) (Some 0))) \<and>
   maxFeePerGas (fst (getCurrentGasPrices world_ok)) = 2000000 \<and>
   maxPriorityFeePerGas (fst (getCurrentGasPrices world_ok)) = 1000000000 \<and>
   fst (estimateGas world_ok refs_ok (Play ''0x01'' 2 99)) = 114518"
proof -
  let ?tx = "\<lparr>tx_to = ''0xe0a0'', tx_account = ''0x1234'', tx_data = Play ''0x01'' 2 99,
      tx_nonce = 7, tx_gas = 114518, tx_maxFeePerGas = 2000000,
      tx_maxPriorityFeePerGas = 1000000000\<rparr>"
  have signed: "CallSignTransaction ?tx
     \<in> set (snd (sendRawTransactionAndConfirm world_ok refs_ok None (Play ''0x01'' 2 99) 7
                   (Some 0) (Some 5000000000) (Some 0)))"
    by (simp add: sendRawTransactionAndConfirm_def sendAttempt_def flow_defs
        world_ok_def refs_ok_def wallet_ok_def)
  from fee_parameters_used [OF signed] signed show ?thesis
    by simp
qed

section \<open>The two game operations\<close>



text \<open>Past the balance check and the encoding, an operation is its submission.\<close>

lemma initialize_submitted:
  assumes "10 ^ 16 \<le> userBalance r"
    and "abiEncodingError w (StartGame gameId boards moves) = None"
  shows "initializeGameTransaction w r gameId boards moves =
           (fst (sendRawTransactionAndConfirm w
                   (r\<lparr>userNonce := number_add_one (userNonce r),
                      userBalance := userBalance r - 7500000000000000\<rparr>)
                   (Some ''Started game!'') (StartGame gameId boards moves) (userNonce r)
                   None None None),
            r\<lparr>userNonce := number_add_one (userNonce r),
              userBalance := userBalance r - 7500000000000000\<rparr>,
            snd (sendRawTransactionAndConfirm w
                   (r\<lparr>userNonce := number_add_one (userNonce r),
                      userBalance := userBalance r - 7500000000000000\<rparr>)
                   (Some ''Started game!'') (StartGame gameId boards moves) (userNonce r)
                   None None None))"
  using assms
  by (simp add: initializeGameTransaction_def js_less_hundredth_iff encodeFunctionData_def
      Let_def unit_consts)

lemma play_submitted:
  assumes "10 ^ 16 \<le> userBalance r"
    and "abiEncodingError w (Play gameId move board) = None"
  shows "playNewMoveTransaction w r gameId board move moveCount =
           (fst (sendRawTransactionAndConfirm w
                   (r\<lparr>userNonce := number_add_one (userNonce r),
                      userBalance := userBalance r - 5000000000000000\<rparr>)
                   (Some (''Played move '' @ numberToString w moveCount))
                   (Play gameId move board) (userNonce r) None None None),
            r\<lparr>userNonce := number_add_one (userNonce r),
              userBalance := userBalance r - 5000000000000000\<rparr>,
            snd (sendRawTransactionAndConfirm w
                   (r\<lparr>userNonce := number_add_one (userNonce r),
                      userBalance := userBalance r - 5000000000000000\<rparr>)
                   (Some (''Played move '' @ numberToString w moveCount))
                   (Play gameId move board) (userNonce r) None None None))"
  using assms
  by (simp add: playNewMoveTransaction_def js_less_hundredth_iff encodeFunctionData_def
      Let_def unit_consts)



lemma world_ok_encodes:
  "abiEncodingError world_ok (StartGame game_id [1, 2, 3, 4] [0, 1, 2]) = None"
  "abiEncodingError world_ok (Play game_id 2 99) = None"
  "abiEncodingError world_nonce_too_low (StartGame game_id [1, 2, 3, 4] [0, 1, 2]) = None"
  "abiEncodingError world_nonce_too_low (Play game_id 2 99) = None"
  by (simp_all add: world_ok_def world_nonce_too_low_def fitsAbi_start fitsAbi_play)



text \<open>
  C4: with a cached balance below 0.01 units (\<open>10^16\<close> wei) both operations fail with the
  insufficient-balance error, having made no call and shown no toast, and leave the cached
  account state as it was.
\<close>

theorem insufficient_balance_rejected:
  assumes "userBalance r < 10 ^ 16"
  shows "initializeGameTransaction w r gameId boards moves =
           (Inl (Error ''Signer has insufficient balance.''), r, []) \<and>
         playNewMoveTransaction w r gameId board move moveCount =
           (Inl (Error ''Signer has insufficient balance.''), r, [])"
  using assms
  by (simp add: initializeGameTransaction_def playNewMoveTransaction_def
      js_less_hundredth_iff)

theorem insufficient_balance_rejected_witness:
  "userBalance (refs_ok\<lparr>userBalance := 9999999999999999\<rparr>) < 10 ^ 16 \<and>
   initializeGameTransaction world_ok (refs_ok\<lparr>userBalance := 9999999999999999\<rparr>)
       ''0x01'' [1, 2, 3, 4] [0, 1, 2] =
     (Inl (Error ''Signer has insufficient balance.''),
      refs_ok\<lparr>userBalance := 9999999999999999\<rparr>, []) \<and>
   playNewMoveTransaction world_ok (refs_ok\<lparr>userBalance := 9999999999999999\<rparr>)
       ''0x01'' 99 2 3 =
     (Inl (Error ''Signer has insufficient balance.''),
      refs_ok\<lparr>userBalance := 9999999999999999\<rparr>, [])"
proof -
  have b: "userBalance (refs_ok\<lparr>userBalance := 9999999999999999\<rparr>) < 10 ^ 16"
    by simp
  from insufficient_balance_rejected [OF b] b show ?thesis
    by simp
qed

text \<open>
  An operation whose call data cannot be encoded fails after the balance check and before
  the optimistic update: the error of the encoder is thrown, nothing is called, no toast is
  shown and the cached state is as before.
\<close>

lemma encoding_failure:
  assumes "10 ^ 16 \<le> userBalance r"
  shows "(abiEncodingError w (StartGame gameId boards moves) = Some t \<longrightarrow>
            initializeGameTransaction w r gameId boards moves = (Inl t, r, [])) \<and>
         (abiEncodingError w (Play gameId move board) = Some t \<longrightarrow>
            playNewMoveTransaction w r gameId board move moveCount = (Inl t, r, []))"
  using assms
  by (simp add: initializeGameTransaction_def playNewMoveTransaction_def
      js_less_hundredth_iff encodeFunctionData_def)

text \<open>
  C9, for an operation that reached its submission and a nonce in the range where a
  number counts exactly: when the balance check has passed, the call data has been encoded
  and the operation then throws, the cached state returned with the error is the old one
  with the nonce (a transaction count below \<open>2^53\<close>) advanced by one and the balance
  lowered by 0.0075 units for an initialization and by 0.005 units for a move; address and
  wallet are as before. Nothing is rolled back. When instead the call data cannot be
  encoded, the operation throws the encoder's error with the cached state unchanged.
\<close>

theorem failure_keeps_optimistic_update:
  "(10 ^ 16 \<le> userBalance r \<and> 0 \<le> userNonce r \<and> userNonce r < 2 ^ 53 \<and>
    abiEncodingError w (StartGame gameId boards moves) = None \<and>
    initializeGameTransaction w r gameId boards moves = (Inl e, r', evs) \<longrightarrow>
      r' = r\<lparr>userNonce := userNonce r + 1,
              userBalance := userBalance r - 7500000000000000\<rparr>) \<and>
   (10 ^ 16 \<le> userBalance r \<and> 0 \<le> userNonce r \<and> userNonce r < 2 ^ 53 \<and>
    abiEncodingError w (Play gameId move board) = None \<and>
    playNewMoveTransaction w r gameId board move moveCount = (Inl e', r'', evs') \<longrightarrow>
      r'' = r\<lparr>userNonce := userNonce r + 1,
               userBalance := userBalance r - 5000000000000000\<rparr>) \<and>
   (10 ^ 16 \<le> userBalance r \<and> abiEncodingError w (StartGame gameId boards moves) = Some t
      \<longrightarrow> initializeGameTransaction w r gameId boards moves = (Inl t, r, [])) \<and>
   (10 ^ 16 \<le> userBalance r \<and> abiEncodingError w (Play gameId move board) = Some t
      \<longrightarrow> playNewMoveTransaction w r gameId board move moveCount = (Inl t, r, []))"
proof (intro conjI impI)
  assume "10 ^ 16 \<le> userBalance r \<and>
    abiEncodingError w (StartGame gameId boards moves) = Some t"
  then show "initializeGameTransaction w r gameId boards moves = (Inl t, r, [])"
    using encoding_failure [where r = r and w = w and gameId = gameId and boards = boards
        and moves = moves and t = t]
    by simp
next
  assume "10 ^ 16 \<le> userBalance r \<and> abiEncodingError w (Play gameId move board) = Some t"
  then show "playNewMoveTransaction w r gameId board move moveCount = (Inl t, r, [])"
    using encoding_failure [where r = r and w = w and gameId = gameId and move = move
        and board = board and moveCount = moveCount and t = t]
    by simp
next
  assume a: "10 ^ 16 \<le> userBalance r \<and> 0 \<le> userNonce r \<and> userNonce r < 2 ^ 53 \<and>
    abiEncodingError w (StartGame gameId boards moves) = None \<and>
    initializeGameTransaction w r gameId boards moves = (Inl e, r', evs)"
  then have b: "10 ^ 16 \<le> userBalance r"
    and enc: "abiEncodingError w (StartGame gameId boards moves) = None"
    and run: "initializeGameTransaction w r gameId boards moves = (Inl e, r', evs)"
    by simp_all
  from run have "r' = r\<lparr>userNonce := number_add_one (userNonce r),
      userBalance := userBalance r - 7500000000000000\<rparr>"
    unfolding initialize_submitted [OF b enc] by auto
  with a show "r' = r\<lparr>userNonce := userNonce r + 1,
      userBalance := userBalance r - 7500000000000000\<rparr>"
    by (simp add: number_add_one_def)
next
  assume a: "10 ^ 16 \<le> userBalance r \<and> 0 \<le> userNonce r \<and> userNonce r < 2 ^ 53 \<and>
    abiEncodingError w (Play gameId move board) = None \<and>
    playNewMoveTransaction w r gameId board move moveCount = (Inl e', r'', evs')"
  then have b: "10 ^ 16 \<le> userBalance r"
    and enc: "abiEncodingError w (Play gameId move board) = None"
    and run: "playNewMoveTransaction w r gameId board move moveCount = (Inl e', r'', evs')"
    by simp_all
  from run have "r'' = r\<lparr>userNonce := number_add_one (userNonce r),
      userBalance := userBalance r - 5000000000000000\<rparr>"
    unfolding play_submitted [OF b enc] by auto
  with a show "r'' = r\<lparr>userNonce := userNonce r + 1,
      userBalance := userBalance r - 5000000000000000\<rparr>"
    by (simp add: number_add_one_def)
qed

theorem failure_keeps_optimistic_update_witness:
  "fst (initializeGameTransaction world_nonce_too_low refs_ok game_id [1, 2, 3, 4] [0, 1, 2])
     = Inl (Error ''nonce too low'') \<and>
   fst (snd (initializeGameTransaction world_nonce_too_low refs_ok game_id [1, 2, 3, 4]
     [0, 1, 2]))
     = \<lparr>userNonce = 8, userBalance = 12500000000000000, userAddress = ''0x1234'',
        walletClient = Some wallet_ok\<rparr> \<and>
   fst (playNewMoveTransaction world_nonce_too_low refs_ok game_id 99 2 3)
     = Inl (Error ''nonce too low'') \<and>
   fst (snd (playNewMoveTransaction world_nonce_too_low refs_ok game_id 99 2 3))
     = \<lparr>userNonce = 8, userBalance = 15000000000000000, userAddress = ''0x1234'',
        walletClient = Some wallet_ok\<rparr> \<and>
   playNewMoveTransaction world_ok refs_ok game_id 99 256 3
     = (Inl (Error ''ABI encoding failed''), refs_ok, [])"
proof -
  let ?i = "initializeGameTransaction world_nonce_too_low refs_ok game_id [1, 2, 3, 4]
     [0, 1, 2]"
  let ?p = "playNewMoveTransaction world_nonce_too_low refs_ok game_id 99 2 3"
  have b: "10 ^ 16 \<le> userBalance refs_ok"
    by (simp add: refs_ok_def)
  have i: "fst ?i = Inl (Error ''nonce too low'')"
    unfolding initialize_submitted [OF b world_ok_encodes(3)]
    by (simp add: sendRawTransactionAndConfirm_def sendAttempt_def flow_defs
        world_nonce_too_low_def world_ok_def refs_ok_def wallet_ok_def)
  have p: "fst ?p = Inl (Error ''nonce too low'')"
    unfolding play_submitted [OF b world_ok_encodes(4)]
    by (simp add: sendRawTransactionAndConfirm_def sendAttempt_def flow_defs
        world_nonce_too_low_def world_ok_def refs_ok_def wallet_ok_def)
  have hi: "10 ^ 16 \<le> userBalance refs_ok \<and> 0 \<le> userNonce refs_ok \<and>
      userNonce refs_ok < 2 ^ 53 \<and>
      abiEncodingError world_nonce_too_low (StartGame game_id [1, 2, 3, 4] [0, 1, 2]) = None \<and>
      ?i = (Inl (Error ''nonce too low''), fst (snd ?i), snd (snd ?i))"
    using i by (simp add: world_ok_encodes refs_ok_def prod_eq_iff)
  have hp: "10 ^ 16 \<le> userBalance refs_ok \<and> 0 \<le> userNonce refs_ok \<and>
      userNonce refs_ok < 2 ^ 53 \<and>
      abiEncodingError world_nonce_too_low (Play game_id 2 99) = None \<and>
      ?p = (Inl (Error ''nonce too low''), fst (snd ?p), snd (snd ?p))"
    using p by (simp add: world_ok_encodes refs_ok_def prod_eq_iff)
  note t = failure_keeps_optimistic_update [where w = world_nonce_too_low and r = refs_ok
      and gameId = game_id and boards = "[1, 2, 3, 4]" and moves = "[0, 1, 2]"
      and e = "Error ''nonce too low''" and r' = "fst (snd ?i)" and evs = "snd (snd ?i)"
      and board = 99 and move = 2 and moveCount = 3 and e' = "Error ''nonce too low''"
      and r'' = "fst (snd ?p)" and evs' = "snd (snd ?p)"]
  have he: "10 ^ 16 \<le> userBalance refs_ok \<and>
      abiEncodingError world_ok (Play game_id 256 99) = Some (Error ''ABI encoding failed'')"
    by (simp add: refs_ok_def world_ok_def fitsAbi.simps isUint_def)
  note u = failure_keeps_optimistic_update [where w = world_ok and r = refs_ok
      and gameId = game_id and board = 99 and move = 256 and moveCount = 3
      and t = "Error ''ABI encoding failed''"]
  from t [THEN conjunct1, THEN mp, OF hi] t [THEN conjunct2, THEN conjunct1, THEN mp, OF hp]
    u [THEN conjunct2, THEN conjunct2, THEN conjunct2, THEN mp, OF he] i p
  show ?thesis
    by (simp add: refs_ok_def)
qed

text \<open>
  The claim as stated fails in two places. An operation whose call data cannot be encoded
  (here a game id of one byte) throws with the cached nonce and balance untouched; and at
  a cached nonce of \<open>2^53\<close> a failing submission leaves the nonce where it was, since
  \<^verbatim>\<open>nonce + 1\<close> is that same number.
\<close>

theorem failure_keeps_optimistic_update_counterexample:
  "initializeGameTransaction world_ok refs_ok ''0x01'' [1, 2, 3, 4] [0, 1, 2]
     = (Inl (Error ''ABI encoding failed''), refs_ok, []) \<and>
   fst (initializeGameTransaction world_nonce_too_low
          (refs_ok\<lparr>userNonce := 9007199254740992\<rparr>) game_id [1, 2, 3, 4] [0, 1, 2])
     = Inl (Error ''nonce too low'') \<and>
   userNonce (fst (snd (initializeGameTransaction world_nonce_too_low
          (refs_ok\<lparr>userNonce := 9007199254740992\<rparr>) game_id [1, 2, 3, 4] [0, 1, 2])))
     = 9007199254740992"
proof -
  let ?r = "refs_ok\<lparr>userNonce := 9007199254740992\<rparr>"
  have b: "10 ^ 16 \<le> userBalance refs_ok" and b': "10 ^ 16 \<le> userBalance ?r"
    by (simp_all add: refs_ok_def)
  have enc: "abiEncodingError world_ok (StartGame ''0x01'' [1, 2, 3, 4] [0, 1, 2])
      = Some (Error ''ABI encoding failed'')"
    by (simp add: world_ok_def not_fitsAbi_short)
  from encoding_failure [OF b, THEN conjunct1, THEN mp, OF enc]
  have 1: "initializeGameTransaction world_ok refs_ok ''0x01'' [1, 2, 3, 4] [0, 1, 2]
     = (Inl (Error ''ABI encoding failed''), refs_ok, [])" .
  have 2: "fst (initializeGameTransaction world_nonce_too_low ?r game_id [1, 2, 3, 4]
      [0, 1, 2]) = Inl (Error ''nonce too low'')"
    unfolding initialize_submitted [OF b' world_ok_encodes(3)]
    by (simp add: sendRawTransactionAndConfirm_def sendAttempt_def flow_defs
        world_nonce_too_low_def world_ok_def refs_ok_def wallet_ok_def)
  have 3: "userNonce (fst (snd (initializeGameTransaction world_nonce_too_low ?r game_id
      [1, 2, 3, 4] [0, 1, 2]))) = 9007199254740992"
    unfolding initialize_submitted [OF b' world_ok_encodes(3)]
    by (simp add: number_add_one_def)
  from 1 2 3 show ?thesis
    by simp
qed

end
